theory Spec2Isabelle
  imports Main
begin

section \<open>Python strings and slices\<close>

text \<open>
  A Python \<open>str\<close> is modelled as a \<^typ>\<open>string\<close>; each \<^typ>\<open>char\<close> stands for one code
  point below 256 (the Latin-1 range), so \<^const>\<open>length\<close> is Python's \<open>len\<close>. The
  functions below follow CPython's \<open>str\<close> methods on that range.
\<close>

definition py_isspace :: "char \<Rightarrow> bool" where
  "py_isspace c =
     (let n = (of_char c :: nat)
      in (9 \<le> n \<and> n \<le> 13) \<or> (28 \<le> n \<and> n \<le> 32) \<or> n = 133 \<or> n = 160)"

definition py_strip :: "string \<Rightarrow> string" where
  "py_strip s = rev (dropWhile py_isspace (rev (dropWhile py_isspace s)))"

definition py_lower_char :: "char \<Rightarrow> char" where
  "py_lower_char c =
     (let n = (of_char c :: nat)
      in if (65 \<le> n \<and> n \<le> 90) \<or> (192 \<le> n \<and> n \<le> 222 \<and> n \<noteq> 215)
         then char_of (n + 32) else c)"

definition py_lower :: "string \<Rightarrow> string" where
  "py_lower s = map py_lower_char s"

definition py_startswith :: "string \<Rightarrow> string \<Rightarrow> bool" where
  "py_startswith s p = (take (length p) s = p)"

text \<open>\<open>s.find(sub)\<close>: the lowest index at which \<open>sub\<close> occurs, \<open>None\<close> for Python's \<open>-1\<close>.\<close>

fun py_find :: "string \<Rightarrow> string \<Rightarrow> nat option" where
  "py_find [] sub = (if sub = [] then Some 0 else None)"
| "py_find (c # cs) sub =
     (if py_startswith (c # cs) sub then Some 0 else map_option Suc (py_find cs sub))"

text \<open>\<open>s.rfind(sub)\<close>: the highest index at which \<open>sub\<close> occurs.\<close>

definition py_rfind :: "string \<Rightarrow> string \<Rightarrow> nat option" where
  "py_rfind s sub =
     (case py_find (rev s) (rev sub) of
        None \<Rightarrow> None
      | Some j \<Rightarrow> Some (length s - length sub - j))"

definition index_or_minus1 :: "nat option \<Rightarrow> int" where
  "index_or_minus1 r = (case r of None \<Rightarrow> - 1 | Some i \<Rightarrow> int i)"

text \<open>\<open>sub in s\<close> on strings.\<close>

definition py_contains :: "string \<Rightarrow> string \<Rightarrow> bool" where
  "py_contains s sub = (py_find s sub \<noteq> None)"

text \<open>\<open>s.split(sep, 1)\<close>: at most one split, at the first occurrence of \<open>sep\<close>.\<close>

definition py_split1 :: "string \<Rightarrow> string \<Rightarrow> string list" where
  "py_split1 s sep =
     (case py_find s sep of
        None \<Rightarrow> [s]
      | Some i \<Rightarrow> [take i s, drop (i + length sep) s])"

text \<open>\<open>s.split(c)\<close> for a separator of one character.\<close>

fun py_split :: "string \<Rightarrow> char \<Rightarrow> string list" where
  "py_split [] c = [[]]"
| "py_split (x # xs) c =
     (if x = c then [] # py_split xs c
      else (case py_split xs c of [] \<Rightarrow> [[x]] | l # ls \<Rightarrow> (x # l) # ls))"

text \<open>\<open>s.replace(old, new)\<close>: every non-overlapping occurrence, left to right.\<close>

function py_replace :: "string \<Rightarrow> string \<Rightarrow> string \<Rightarrow> string" where
  "py_replace s old new =
     (if old = [] then new @ concat (map (\<lambda>c. c # new) s)
      else (case s of
              [] \<Rightarrow> []
            | c # cs \<Rightarrow>
                if py_startswith s old then new @ py_replace (drop (length old) s) old new
                else c # py_replace cs old new))"
  by pat_completeness auto
termination
  by (relation "measure (\<lambda>(s, old, new). length s)") auto

declare py_replace.simps [simp del]

text \<open>
  Slice bounds: a negative bound counts from the end, and every bound is clamped to the
  sequence, so a slice never raises.
\<close>

definition slice_bound :: "nat \<Rightarrow> int \<Rightarrow> nat" where
  "slice_bound n k = (if k < 0 then nat (max (k + int n) 0) else min (nat k) n)"

text \<open>\<open>xs[i:j]\<close>, \<open>xs[:j]\<close> and \<open>xs[i:]\<close>.\<close>

definition py_slice :: "'a list \<Rightarrow> int \<Rightarrow> int \<Rightarrow> 'a list" where
  "py_slice xs i j =
     (let a = slice_bound (length xs) i; b = slice_bound (length xs) j
      in take (b - a) (drop a xs))"

definition py_slice_to :: "'a list \<Rightarrow> int \<Rightarrow> 'a list" where
  "py_slice_to xs j = take (slice_bound (length xs) j) xs"

definition py_slice_from :: "'a list \<Rightarrow> int \<Rightarrow> 'a list" where
  "py_slice_from xs i = drop (slice_bound (length xs) i) xs"

text \<open>
  \<open>int(s)\<close> on a string: surrounding whitespace is ignored, then an optional sign and
  decimal digits, with single underscores allowed between digits. \<open>None\<close> stands for
  \<open>ValueError\<close>. (The interpreter's limit on the number of digits is not modelled.)
\<close>

definition is_digit :: "char \<Rightarrow> bool" where
  "is_digit c = (let n = (of_char c :: nat) in 48 \<le> n \<and> n \<le> 57)"

definition digit_val :: "char \<Rightarrow> int" where
  "digit_val c = int (of_char c) - 48"

fun parse_digits :: "int \<Rightarrow> string \<Rightarrow> int option" where
  "parse_digits acc [] = Some acc"
| "parse_digits acc [c] = (if is_digit c then Some (10 * acc + digit_val c) else None)"
| "parse_digits acc (c # d # ds) =
     (if is_digit c then parse_digits (10 * acc + digit_val c) (d # ds)
      else if c = CHR ''_'' \<and> is_digit d then parse_digits (10 * acc + digit_val d) ds
      else None)"

definition parse_unsigned :: "string \<Rightarrow> int option" where
  "parse_unsigned s =
     (case s of [] \<Rightarrow> None
      | c # cs \<Rightarrow> if is_digit c then parse_digits (digit_val c) cs else None)"

definition py_int :: "string \<Rightarrow> int option" where
  "py_int s =
     (case py_strip s of
        [] \<Rightarrow> None
      | c # cs \<Rightarrow>
          if c = CHR ''+'' then parse_unsigned cs
          else if c = CHR ''-'' then map_option uminus (parse_unsigned cs)
          else parse_unsigned (c # cs))"

section \<open>The assistant: \<open>backend/ai_assistant.py\<close>\<close>

text \<open>
  An exception raised by a collaborator outside the repository (the tokenizer, the
  chat-completion client); \<open>str_exn\<close> is Python's \<open>str(e)\<close>.
\<close>

datatype exn = Exn string

fun str_exn :: "exn \<Rightarrow> string" where
  "str_exn (Exn msg) = msg"

text \<open>
  The tokenizer object \<open>self.encoding\<close> (tiktoken's \<open>cl100k_base\<close>) is not part of the
  repository: its two methods are parameters. Tokens are numbers.
\<close>

record encoding =
  encode :: "string \<Rightarrow> exn + nat list"
  decode :: "nat list \<Rightarrow> exn + string"

text \<open>
  A request to \<open>client.chat.completions.create\<close>. The prompt templates are fixed text
  around the interpolated values; a prompt is represented by its template and those values.
\<close>

datatype prompt =
    SummaryPrompt string
  | AnswerPrompt string string string
  | EvaluationPrompt string string string string
  | QuestionsPrompt string int

record completion_request =
  req_model :: string
  req_prompt :: prompt
  req_max_tokens :: nat

text \<open>
  \<open>client\<close> stands for the call together with reading
  \<open>response.choices[0].message.content\<close>: an exception or the content.
\<close>

record ai_assistant =
  client :: "completion_request \<Rightarrow> exn + string"
  encoding :: encoding

definition count_tokens :: "ai_assistant \<Rightarrow> string \<Rightarrow> exn + int" where
  "count_tokens self text =
     (case encode (encoding self) text of
        Inl e \<Rightarrow> Inl e
      | Inr tokens \<Rightarrow> Inr (int (length tokens)))"

definition truncate_text :: "ai_assistant \<Rightarrow> string \<Rightarrow> int \<Rightarrow> exn + string" where
  "truncate_text self text max_tokens =
     (case encode (encoding self) text of
        Inl e \<Rightarrow> Inl e
      | Inr tokens \<Rightarrow>
          if int (length tokens) \<le> max_tokens then Inr text
          else decode (encoding self) (py_slice_to tokens max_tokens))"

subsection \<open>\<open>generate_summary\<close>\<close>

text \<open>The body of the \<open>try\<close> block, then the function with its handler.\<close>

definition generate_summary_try :: "ai_assistant \<Rightarrow> string \<Rightarrow> exn + string" where
  "generate_summary_try self document_text =
     (case truncate_text self document_text 2500 of
        Inl e \<Rightarrow> Inl e
      | Inr truncated_text \<Rightarrow>
          (case client self \<lparr>req_model = ''gpt-4o-mini'',
                             req_prompt = SummaryPrompt truncated_text,
                             req_max_tokens = 200\<rparr> of
             Inl e \<Rightarrow> Inl e
           | Inr content \<Rightarrow> Inr (py_strip content)))"

definition generate_summary :: "ai_assistant \<Rightarrow> string \<Rightarrow> exn + string" where
  "generate_summary self document_text =
     (case generate_summary_try self document_text of
        Inr summary \<Rightarrow> Inr summary
      | Inl e \<Rightarrow> Inr (''Error generating summary: '' @ str_exn e))"

subsection \<open>\<open>answer_question\<close>\<close>

record conversation_entry =
  entry_question :: string
  entry_answer :: string

text \<open>The context built from the last three exchanges; \<open>None\<close> is the default argument.\<close>

definition build_context :: "conversation_entry list option \<Rightarrow> string" where
  "build_context context_history =
     (case context_history of
        None \<Rightarrow> []
      | Some h \<Rightarrow>
          if h = [] then []
          else foldl (\<lambda>context entry.
                        context @ ''Q: '' @ entry_question entry @ [CHR ''\<newline>''] @
                        ''A: '' @ entry_answer entry @ [CHR ''\<newline>''])
                 ([CHR ''\<newline>'', CHR ''\<newline>''] @ ''Previous conversation:'' @ [CHR ''\<newline>''])
                 (py_slice_from h (- 3)))"

text \<open>Separating answer and justification in \<open>full_response\<close>.\<close>

definition split_answer_justification :: "string \<Rightarrow> string \<times> string" where
  "split_answer_justification full_response =
     (if py_contains (py_lower full_response) ''justification:'' then
        (let parts = py_split1 full_response ''Justification:''
         in if length parts = 2 then (py_strip (parts ! 0), py_strip (parts ! 1))
            else (full_response, ''Based on the document content provided.''))
      else (full_response, ''Response is grounded in the document content.''))"

definition answer_question_try ::
    "ai_assistant \<Rightarrow> string \<Rightarrow> string \<Rightarrow> conversation_entry list option \<Rightarrow> exn + string \<times> string" where
  "answer_question_try self question document_text context_history =
     (case truncate_text self document_text 2500 of
        Inl e \<Rightarrow> Inl e
      | Inr truncated_text \<Rightarrow>
          (case client self \<lparr>req_model = ''gpt-4o-mini'',
                             req_prompt = AnswerPrompt truncated_text
                                            (build_context context_history) question,
                             req_max_tokens = 400\<rparr> of
             Inl e \<Rightarrow> Inl e
           | Inr content \<Rightarrow> Inr (split_answer_justification (py_strip content))))"

definition answer_question ::
    "ai_assistant \<Rightarrow> string \<Rightarrow> string \<Rightarrow> conversation_entry list option \<Rightarrow> exn + string \<times> string" where
  "answer_question self question document_text context_history =
     (case answer_question_try self question document_text context_history of
        Inr r \<Rightarrow> Inr r
      | Inl e \<Rightarrow> Inr (''Error answering question: '' @ str_exn e, []))"

subsection \<open>\<open>evaluate_user_answer\<close>\<close>

text \<open>
  One round of the loop over the lines, on (evaluation, feedback, score). A failing
  \<open>int\<close> is caught on the spot and sets the score to 5.
\<close>

definition evaluation_line :: "string \<times> string \<times> int \<Rightarrow> string \<Rightarrow> string \<times> string \<times> int" where
  "evaluation_line st line =
     (case st of (evaluation, feedback, score) \<Rightarrow>
        if py_startswith line ''Evaluation:''
          then (py_strip (py_replace line ''Evaluation:'' []), feedback, score)
        else if py_startswith line ''Feedback:''
          then (evaluation, py_strip (py_replace line ''Feedback:'' []), score)
        else if py_startswith line ''Score:''
          then (case py_int (py_strip (py_replace line ''Score:'' [])) of
                  Some n \<Rightarrow> (evaluation, feedback, n)
                | None \<Rightarrow> (evaluation, feedback, 5))
        else (evaluation, feedback, score))"

definition parse_evaluation :: "string \<Rightarrow> string \<times> string \<times> int" where
  "parse_evaluation full_response =
     foldl evaluation_line (''Partially Correct'', full_response, 5)
       (py_split full_response CHR ''\<newline>'')"

definition evaluate_user_answer_try ::
    "ai_assistant \<Rightarrow> string \<Rightarrow> string \<Rightarrow> string \<Rightarrow> string \<Rightarrow> exn + string \<times> string \<times> int" where
  "evaluate_user_answer_try self question user_answer correct_info document_text =
     (case truncate_text self document_text 2000 of
        Inl e \<Rightarrow> Inl e
      | Inr truncated_text \<Rightarrow>
          (case client self \<lparr>req_model = ''gpt-4o-mini'',
                             req_prompt = EvaluationPrompt truncated_text question
                                            correct_info user_answer,
                             req_max_tokens = 300\<rparr> of
             Inl e \<Rightarrow> Inl e
           | Inr content \<Rightarrow> Inr (parse_evaluation (py_strip content))))"

definition evaluate_user_answer ::
    "ai_assistant \<Rightarrow> string \<Rightarrow> string \<Rightarrow> string \<Rightarrow> string \<Rightarrow> exn + string \<times> string \<times> int" where
  "evaluate_user_answer self question user_answer correct_info document_text =
     (case evaluate_user_answer_try self question user_answer correct_info document_text of
        Inr r \<Rightarrow> Inr r
      | Inl e \<Rightarrow> Inr (''Error'', ''Error evaluating answer: '' @ str_exn e, 0))"

subsection \<open>The conversation history\<close>

text \<open>
  \<open>st.session_state.conversation_history\<close> is passed in and returned: the new entry is
  appended, and \<open>pop(0)\<close> drops the head when more than ten entries are held.
\<close>

definition add_to_conversation_history ::
    "conversation_entry list \<Rightarrow> string \<Rightarrow> string \<Rightarrow> conversation_entry list" where
  "add_to_conversation_history conversation_history question answer =
     (let appended = conversation_history @
                       [\<lparr>entry_question = question, entry_answer = answer\<rparr>]
      in if length appended > 10 then tl appended else appended)"

definition clear_conversation_history :: "conversation_entry list \<Rightarrow> conversation_entry list" where
  "clear_conversation_history conversation_history = []"

section \<open>Python values\<close>

text \<open>
  What \<open>json.loads\<close> builds, and what the question dictionaries hold. A float is a
  finite binary fraction (mantissa and exponent), an infinity or not-a-number. A \<open>dict\<close>
  with string keys is an association list in insertion order, read with \<^const>\<open>map_of\<close>.
\<close>

datatype pyfloat = Finite int int | PosInf | NegInf | NaN

datatype pyval =
    PNone
  | PBool bool
  | PInt int
  | PFloat pyfloat
  | PStr string
  | PList "pyval list"
  | PDict "(string \<times> pyval) list"

type_synonym pydict = "(string \<times> pyval) list"

text \<open>Errors raised by the interpreter itself.\<close>

datatype py_error = TypeError | AttributeError | KeyError

text \<open>Truth value of an object, as \<open>and\<close> and \<open>if\<close> test it.\<close>

fun truthy :: "pyval \<Rightarrow> bool" where
  "truthy PNone = False"
| "truthy (PBool b) = b"
| "truthy (PInt i) = (i \<noteq> 0)"
| "truthy (PFloat f) = (case f of Finite m e \<Rightarrow> m \<noteq> 0 | _ \<Rightarrow> True)"
| "truthy (PStr s) = (s \<noteq> [])"
| "truthy (PList xs) = (xs \<noteq> [])"
| "truthy (PDict kvs) = (kvs \<noteq> [])"

text \<open>
  \<open>key in q\<close> for a string \<open>key\<close>: a key of a dict, a substring of a string, an element
  of a list; any other object is not iterable.
\<close>

fun py_in :: "string \<Rightarrow> pyval \<Rightarrow> py_error + bool" where
  "py_in key (PDict kvs) = Inr (map_of kvs key \<noteq> None)"
| "py_in key (PStr s) = Inr (py_contains s key)"
| "py_in key (PList xs) = Inr (List.member xs (PStr key))"
| "py_in key _ = Inl TypeError"

text \<open>\<open>all(key in q for key in keys)\<close>: stops at the first key that is missing.\<close>

fun all_in :: "string list \<Rightarrow> pyval \<Rightarrow> py_error + bool" where
  "all_in [] q = Inr True"
| "all_in (key # keys) q =
     (case py_in key q of
        Inl e \<Rightarrow> Inl e
      | Inr present \<Rightarrow> if present then all_in keys q else Inr False)"

text \<open>\<open>q[key]\<close> for a string \<open>key\<close>.\<close>

fun py_getitem :: "pyval \<Rightarrow> string \<Rightarrow> py_error + pyval" where
  "py_getitem (PDict kvs) key =
     (case map_of kvs key of None \<Rightarrow> Inl KeyError | Some v \<Rightarrow> Inr v)"
| "py_getitem _ key = Inl TypeError"

text \<open>\<open>q.get(key, default)\<close>; only a dict has the method.\<close>

fun py_get :: "pyval \<Rightarrow> string \<Rightarrow> pyval \<Rightarrow> py_error + pyval" where
  "py_get (PDict kvs) key dflt =
     Inr (case map_of kvs key of None \<Rightarrow> dflt | Some v \<Rightarrow> v)"
| "py_get _ key dflt = Inl AttributeError"

text \<open>\<open>v.strip()\<close>; only a string has the method.\<close>

fun strip_method :: "pyval \<Rightarrow> py_error + string" where
  "strip_method (PStr s) = Inr (py_strip s)"
| "strip_method _ = Inl AttributeError"

text \<open>The items a \<open>for\<close> loop draws from an object.\<close>

fun py_iter :: "pyval \<Rightarrow> py_error + pyval list" where
  "py_iter (PList xs) = Inr xs"
| "py_iter (PDict kvs) = Inr (map (\<lambda>kv. PStr (fst kv)) kvs)"
| "py_iter (PStr s) = Inr (map (\<lambda>c. PStr [c]) s)"
| "py_iter _ = Inl TypeError"

text \<open>\<open>d[key] = v\<close> on a dict.\<close>

fun dict_set :: "pydict \<Rightarrow> string \<Rightarrow> pyval \<Rightarrow> pydict" where
  "dict_set [] key v = [(key, v)]"
| "dict_set ((k, w) # d) key v = (if k = key then (k, v) # d else (k, w) # dict_set d key v)"

section \<open>The question generator: \<open>backend/question_generator.py\<close>\<close>

text \<open>
  \<open>json.loads\<close> is a parameter: it yields a value or fails, with \<open>JSONDecodeError\<close> or
  with another exception (such as \<open>RecursionError\<close>).
\<close>

datatype load_error = JSONDecodeError | OtherLoadError

text \<open>Whatever can be raised inside the \<open>try\<close> block of \<open>generate_challenge_questions\<close>.\<close>

datatype failure = Collaborator exn | Interpreter py_error | Loader load_error

record question_generator =
  qg_client :: "completion_request \<Rightarrow> exn + string"

text \<open>The body of the loop that validates and cleans one parsed element.\<close>

definition clean_question :: "pyval \<Rightarrow> py_error + pydict option" where
  "clean_question q =
     (case all_in [''question'', ''expected_answer'', ''difficulty''] q of
        Inl e \<Rightarrow> Inl e
      | Inr ok \<Rightarrow>
          if \<not> ok then Inr None
          else
            (case py_getitem q ''question'' of Inl e \<Rightarrow> Inl e | Inr v1 \<Rightarrow>
            (case strip_method v1 of Inl e \<Rightarrow> Inl e | Inr question \<Rightarrow>
            (case py_getitem q ''expected_answer'' of Inl e \<Rightarrow> Inl e | Inr v2 \<Rightarrow>
            (case strip_method v2 of Inl e \<Rightarrow> Inl e | Inr expected_answer \<Rightarrow>
            (case py_get q ''difficulty'' (PStr ''Medium'') of Inl e \<Rightarrow> Inl e | Inr difficulty \<Rightarrow>
            (case py_get q ''type'' (PStr ''comprehension'') of Inl e \<Rightarrow> Inl e | Inr qtype \<Rightarrow>
               Inr (Some [(''question'', PStr question),
                          (''expected_answer'', PStr expected_answer),
                          (''difficulty'', difficulty),
                          (''type'', qtype)]))))))))"

fun clean_questions :: "pyval list \<Rightarrow> pydict list \<Rightarrow> py_error + pydict list" where
  "clean_questions [] valid_questions = Inr valid_questions"
| "clean_questions (q # qs) valid_questions =
     (case clean_question q of
        Inl e \<Rightarrow> Inl e
      | Inr None \<Rightarrow> clean_questions qs valid_questions
      | Inr (Some d) \<Rightarrow> clean_questions qs (valid_questions @ [d]))"

text \<open>\<open>_parse_questions_manually\<close>: one round of its loop on (questions, current_question).\<close>

definition manual_line :: "pydict list \<times> pydict \<Rightarrow> string \<Rightarrow> pydict list \<times> pydict" where
  "manual_line st raw_line =
     (case st of (questions, current_question) \<Rightarrow>
        (let line = py_strip raw_line
         in if list_ex (py_startswith line) [''1.'', ''2.'', ''3.'', ''Question:'', ''Q:'']
            then
              (let flushed = (if current_question \<noteq> []
                              then (questions @ [current_question], [])
                              else (questions, current_question));
                   d1 = dict_set (snd flushed) ''question'' (PStr line);
                   d2 = dict_set d1 ''expected_answer'' (PStr ''Based on document content'');
                   d3 = dict_set d2 ''difficulty'' (PStr ''Medium'');
                   d4 = dict_set d3 ''type'' (PStr ''comprehension'')
               in (fst flushed, d4))
            else (questions, current_question)))"

definition parse_questions_manually :: "string \<Rightarrow> int \<Rightarrow> pydict list" where
  "parse_questions_manually response_text num_questions =
     (case foldl manual_line ([], []) (py_split response_text CHR ''\<newline>'') of
        (questions, current_question) \<Rightarrow>
          py_slice_to (if current_question \<noteq> [] then questions @ [current_question]
                       else questions) num_questions)"

definition fallback_questions :: "pydict list" where
  "fallback_questions =
     [[(''question'', PStr ''What is the main topic or theme discussed in this document?''),
       (''expected_answer'', PStr ''The main topic should be identified from the document content''),
       (''difficulty'', PStr ''Easy''),
       (''type'', PStr ''comprehension'')],
      [(''question'', PStr ''What are the key findings or conclusions presented in the document?''),
       (''expected_answer'', PStr ''Key findings should be summarized from the document''),
       (''difficulty'', PStr ''Medium''),
       (''type'', PStr ''analysis'')],
      [(''question'', PStr ''Based on the information provided, what implications or applications can be drawn?''),
       (''expected_answer'', PStr ''Implications should be inferred from the document content''),
       (''difficulty'', PStr ''Hard''),
       (''type'', PStr ''inference'')]]"

definition generate_fallback_questions :: "string \<Rightarrow> int \<Rightarrow> pydict list" where
  "generate_fallback_questions document_text num_questions =
     py_slice_to fallback_questions num_questions"

text \<open>
  The inner \<open>try\<close> block on \<open>response_text\<close>, with its handler for \<open>JSONDecodeError\<close>; any
  other exception leaves the block.
\<close>

definition json_text_of :: "string \<Rightarrow> string" where
  "json_text_of response_text =
     (let start = index_or_minus1 (py_find response_text ''['');
          finish = index_or_minus1 (py_rfind response_text '']'') + 1
      in py_slice response_text start finish)"

definition parse_question_set ::
    "(string \<Rightarrow> load_error + pyval) \<Rightarrow> string \<Rightarrow> int \<Rightarrow> failure + pydict list" where
  "parse_question_set json_loads response_text num_questions =
     (case json_loads (json_text_of response_text) of
        Inl JSONDecodeError \<Rightarrow> Inr (parse_questions_manually response_text num_questions)
      | Inl OtherLoadError \<Rightarrow> Inl (Loader OtherLoadError)
      | Inr questions \<Rightarrow>
          (case py_iter questions of
             Inl e \<Rightarrow> Inl (Interpreter e)
           | Inr items \<Rightarrow>
               (case clean_questions items [] of
                  Inl e \<Rightarrow> Inl (Interpreter e)
                | Inr valid_questions \<Rightarrow> Inr (py_slice_to valid_questions num_questions))))"

text \<open>
  The outer \<open>try\<close> block. The assistant is constructed inside it, which can fail
  (\<open>new_assistant\<close> is the outcome of \<open>AIAssistant()\<close>).
\<close>

definition generate_challenge_questions_try ::
    "question_generator \<Rightarrow> exn + ai_assistant \<Rightarrow> (string \<Rightarrow> load_error + pyval) \<Rightarrow>
     string \<Rightarrow> int \<Rightarrow> failure + pydict list" where
  "generate_challenge_questions_try self new_assistant json_loads document_text num_questions =
     (case new_assistant of
        Inl e \<Rightarrow> Inl (Collaborator e)
      | Inr ai_assistant \<Rightarrow>
          (case truncate_text ai_assistant document_text 2500 of
             Inl e \<Rightarrow> Inl (Collaborator e)
           | Inr truncated_text \<Rightarrow>
               (case qg_client self \<lparr>req_model = ''gpt-3.5-turbo'',
                                     req_prompt = QuestionsPrompt truncated_text num_questions,
                                     req_max_tokens = 800\<rparr> of
                  Inl e \<Rightarrow> Inl (Collaborator e)
                | Inr content \<Rightarrow> parse_question_set json_loads (py_strip content) num_questions)))"

text \<open>
  The handler of the outer block returns the static questions (the message it shows with
  \<open>st.error\<close> is not modelled).
\<close>

definition generate_challenge_questions ::
    "question_generator \<Rightarrow> exn + ai_assistant \<Rightarrow> (string \<Rightarrow> load_error + pyval) \<Rightarrow>
     string \<Rightarrow> int \<Rightarrow> pydict list" where
  "generate_challenge_questions self new_assistant json_loads document_text num_questions =
     (case generate_challenge_questions_try self new_assistant json_loads
             document_text num_questions of
        Inr questions \<Rightarrow> questions
      | Inl e \<Rightarrow> generate_fallback_questions document_text num_questions)"

subsection \<open>\<open>validate_questions\<close>\<close>

text \<open>The condition of the \<open>if\<close>, evaluated left to right; it has no handler.\<close>

definition passes_validation :: "pydict \<Rightarrow> py_error + bool" where
  "passes_validation question =
     (if \<not> truthy (case map_of question ''question'' of None \<Rightarrow> PNone | Some v \<Rightarrow> v)
      then Inr False
      else
        (case py_getitem (PDict question) ''question'' of Inl e \<Rightarrow> Inl e | Inr v1 \<Rightarrow>
        (case strip_method v1 of Inl e \<Rightarrow> Inl e | Inr s1 \<Rightarrow>
           if \<not> length s1 > 10 then Inr False
           else if \<not> truthy (case map_of question ''expected_answer'' of
                                None \<Rightarrow> PNone | Some v \<Rightarrow> v)
           then Inr False
           else
             (case py_getitem (PDict question) ''expected_answer'' of Inl e \<Rightarrow> Inl e | Inr v2 \<Rightarrow>
             (case strip_method v2 of Inl e \<Rightarrow> Inl e | Inr s2 \<Rightarrow>
                Inr (length s2 > 5))))))"

fun validate_loop :: "pydict list \<Rightarrow> pydict list \<Rightarrow> py_error + pydict list" where
  "validate_loop [] validated_questions = Inr validated_questions"
| "validate_loop (question # questions) validated_questions =
     (case passes_validation question of
        Inl e \<Rightarrow> Inl e
      | Inr ok \<Rightarrow>
          validate_loop questions
            (if ok then validated_questions @ [question] else validated_questions))"

definition validate_questions :: "pydict list \<Rightarrow> string \<Rightarrow> py_error + pydict list" where
  "validate_questions questions document_text = validate_loop questions []"

section \<open>Notions used to state the properties\<close>

text \<open>A run of calls of \<open>add_to_conversation_history\<close>, one per (question, answer) pair.\<close>

fun add_all :: "conversation_entry list \<Rightarrow> (string \<times> string) list \<Rightarrow> conversation_entry list" where
  "add_all h [] = h"
| "add_all h (qa # rest) = add_all (add_to_conversation_history h (fst qa) (snd qa)) rest"

definition entry_of :: "string \<times> string \<Rightarrow> conversation_entry" where
  "entry_of qa = \<lparr>entry_question = fst qa, entry_answer = snd qa\<rparr>"

text \<open>The last line that starts with a given prefix, if there is one.\<close>

fun last_line_with :: "string \<Rightarrow> string list \<Rightarrow> string option" where
  "last_line_with p [] = None"
| "last_line_with p (l # ls) =
     (case last_line_with p ls of
        Some m \<Rightarrow> Some m
      | None \<Rightarrow> if py_startswith l p then Some l else None)"

text \<open>
  The validation gate in the specification's words: the field is present, a string, and
  longer than the bound once stripped.
\<close>

definition field_longer_than :: "pydict \<Rightarrow> string \<Rightarrow> nat \<Rightarrow> bool" where
  "field_longer_than question key bound =
     (case map_of question key of
        Some (PStr s) \<Rightarrow> length (py_strip s) > bound
      | _ \<Rightarrow> False)"

definition meets_gate :: "pydict \<Rightarrow> bool" where
  "meets_gate question =
     (field_longer_than question ''question'' 10 \<and>
      field_longer_than question ''expected_answer'' 5)"

text \<open>A question record: its two text fields hold strings when they are present.\<close>

definition text_field :: "pydict \<Rightarrow> string \<Rightarrow> bool" where
  "text_field question key =
     (case map_of question key of None \<Rightarrow> True | Some (PStr s) \<Rightarrow> True | Some _ \<Rightarrow> False)"

definition question_record :: "pydict \<Rightarrow> bool" where
  "question_record question =
     (text_field question ''question'' \<and> text_field question ''expected_answer'')"

text \<open>
  Parsing a question set in the specification's words: an element counts when it is an
  object with the three required keys; the question made from it has the two texts
  stripped, the difficulty as it is, and the type or its default.
\<close>

fun has_required_keys :: "pyval \<Rightarrow> bool" where
  "has_required_keys (PDict kvs) =
     (map_of kvs ''question'' \<noteq> None \<and> map_of kvs ''expected_answer'' \<noteq> None \<and>
      map_of kvs ''difficulty'' \<noteq> None)"
| "has_required_keys _ = False"

fun stripped_text :: "pyval option \<Rightarrow> pyval" where
  "stripped_text (Some (PStr s)) = PStr (py_strip s)"
| "stripped_text _ = PNone"

fun value_or :: "pyval option \<Rightarrow> pyval \<Rightarrow> pyval" where
  "value_or (Some v) d = v"
| "value_or None d = d"

fun question_of :: "pyval \<Rightarrow> pydict" where
  "question_of (PDict kvs) =
     [(''question'', stripped_text (map_of kvs ''question'')),
      (''expected_answer'', stripped_text (map_of kvs ''expected_answer'')),
      (''difficulty'', value_or (map_of kvs ''difficulty'') (PStr ''Medium'')),
      (''type'', value_or (map_of kvs ''type'') (PStr ''comprehension''))]"
| "question_of _ = []"

text \<open>
  An array element the parser handles without an exception: an object whose two texts,
  when it has the three required keys, are strings.
\<close>

fun is_text :: "pyval option \<Rightarrow> bool" where
  "is_text (Some (PStr s)) = True"
| "is_text _ = False"

fun question_object :: "pyval \<Rightarrow> bool" where
  "question_object (PDict kvs) =
     (if has_required_keys (PDict kvs)
      then is_text (map_of kvs ''question'') \<and> is_text (map_of kvs ''expected_answer'')
      else True)"
| "question_object _ = False"

section \<open>The conversation history is a window of the last ten exchanges\<close>

lemma add_one:
  assumes "length h \<le> 10"
  shows "add_to_conversation_history h q a = drop (length h + 1 - 10) (h @ [entry_of (q, a)])"
proof (cases "length h = 10")
  case True
  then obtain x xs where "h = x # xs" by (cases h) auto
  with True show ?thesis
    by (simp add: add_to_conversation_history_def entry_of_def)
next
  case False
  with assms show ?thesis
    by (simp add: add_to_conversation_history_def entry_of_def)
qed

lemma add_all_drop:
  "length h \<le> 10 \<Longrightarrow>
   add_all h qas = drop (length h + length qas - 10) (h @ map entry_of qas)"
proof (induction qas arbitrary: h)
  case Nil
  then show ?case by simp
next
  case (Cons qa rest)
  let ?e = "entry_of qa"
  let ?d = "length h + 1 - 10"
  let ?h' = "drop ?d (h @ [?e])"
  have step: "add_to_conversation_history h (fst qa) (snd qa) = ?h'"
    using add_one [OF Cons.prems, of "fst qa" "snd qa"] by simp
  have len: "length ?h' \<le> 10" using Cons.prems by simp
  have "add_all h (qa # rest) = add_all ?h' rest" by (simp add: step)
  also have "\<dots> = drop (length ?h' + length rest - 10) (?h' @ map entry_of rest)"
    by (rule Cons.IH [OF len])
  also have "?h' @ map entry_of rest = drop ?d (h @ ?e # map entry_of rest)"
    using Cons.prems by simp
  also have "drop (length ?h' + length rest - 10) (drop ?d (h @ ?e # map entry_of rest))
           = drop (length h + length (qa # rest) - 10) (h @ map entry_of (qa # rest))"
    using Cons.prems by (cases "length h = 10") simp_all
  finally show ?case .
qed

text \<open>
  Claim C2. Starting from the empty history, after any sequence of appends the history
  is the last ten of the appended entries, in the order of insertion; so it never holds
  more than ten, the oldest entry is the one that leaves, and after eleven appends
  \<open>e1 .. e11\<close> it holds exactly \<open>e2 .. e11\<close>.
\<close>

theorem history_keeps_last_ten:
  "add_all [] qas = drop (length qas - 10) (map entry_of qas)
   \<and> length (add_all [] qas) \<le> 10
   \<and> add_all [] [e1, e2, e3, e4, e5, e6, e7, e8, e9, e10, e11]
       = map entry_of [e2, e3, e4, e5, e6, e7, e8, e9, e10, e11]"
proof -
  have a: "add_all [] xs = drop (length xs - 10) (map entry_of xs)" for xs
    using add_all_drop [of "[]" xs] by simp
  have b: "length (add_all [] qas) \<le> 10" unfolding a by simp
  have c: "add_all [] [e1, e2, e3, e4, e5, e6, e7, e8, e9, e10, e11]
       = map entry_of [e2, e3, e4, e5, e6, e7, e8, e9, e10, e11]"
    unfolding a by simp
  from a b c show ?thesis by blast
qed

section \<open>Truncation leaves a text within the budget alone\<close>

text \<open>
  Claim C7. If \<open>count_tokens\<close> gives a count of at most \<open>k\<close> for a text, then
  \<open>truncate_text\<close> with ceiling \<open>k\<close> returns that text unchanged.
\<close>

theorem truncate_text_below_budget:
  "count_tokens self text = Inr c \<Longrightarrow> c \<le> k \<Longrightarrow> truncate_text self text k = Inr text"
  by (auto simp: count_tokens_def truncate_text_def split: sum.splits)

theorem truncate_text_below_budget_witness:
  "count_tokens \<lparr>client = (\<lambda>req. Inr []),
                  encoding = \<lparr>encode = (\<lambda>s. Inr (map of_char s)),
                              decode = (\<lambda>ts. Inr (map char_of ts))\<rparr>\<rparr> ''abc'' = Inr 3
   \<and> (3::int) \<le> 5
   \<and> truncate_text \<lparr>client = (\<lambda>req. Inr []),
                     encoding = \<lparr>encode = (\<lambda>s. Inr (map of_char s)),
                                 decode = (\<lambda>ts. Inr (map char_of ts))\<rparr>\<rparr> ''abc'' 5 = Inr ''abc''"
proof -
  let ?self = "\<lparr>client = (\<lambda>req. Inr []),
                 encoding = \<lparr>encode = (\<lambda>s. Inr (map of_char s)),
                             decode = (\<lambda>ts. Inr (map char_of ts))\<rparr>\<rparr>"
  have h1: "count_tokens ?self ''abc'' = Inr 3" by (simp add: count_tokens_def)
  have h2: "(3::int) \<le> 5" by simp
  from truncate_text_below_budget [OF h1 h2] h1 h2 show ?thesis by blast
qed

text \<open>
  Truncating a second time re-encodes the text that the first truncation decoded. It
  changes nothing when that text encodes to at most \<open>k\<close> tokens; whether it does is a
  property of the tokenizer, which the repository does not contain.
\<close>

lemma truncate_text_again:
  assumes "truncate_text self text k = Inr t"
    and "encode (encoding self) t = Inr ts" and "int (length ts) \<le> k"
  shows "truncate_text self t k = Inr t"
  using assms(2,3) by (simp add: truncate_text_def)

section \<open>Facts about the string functions\<close>

lemma py_contains_Nil [simp]: "py_contains [] sub = (sub = [])"
  by (simp add: py_contains_def)

lemma py_contains_Cons:
  "py_contains (c # cs) sub = (py_startswith (c # cs) sub \<or> py_contains cs sub)"
  by (simp add: py_contains_def)

lemma py_startswith_append [simp]: "py_startswith (p @ rest) p"
  by (simp add: py_startswith_def)

lemma py_find_split:
  "py_find s sub = Some i \<Longrightarrow> s = take i s @ sub @ drop (i + length sub) s"
proof (induction s arbitrary: i)
  case Nil
  then show ?case by (simp split: if_splits)
next
  case (Cons c cs)
  show ?case
  proof (cases "py_startswith (c # cs) sub")
    case True
    with Cons.prems have "i = 0" by simp
    moreover from True have "c # cs = sub @ drop (length sub) (c # cs)"
      unfolding py_startswith_def by (metis append_take_drop_id)
    ultimately show ?thesis by simp
  next
    case False
    with Cons.prems obtain j where j: "py_find cs sub = Some j" "i = Suc j" by auto
    from Cons.IH [OF j(1)] j(2) show ?thesis by simp
  qed
qed

lemma py_contains_occurrence: "py_contains (a @ sub @ b) sub"
proof (induction a)
  case Nil
  show ?case
  proof (cases "sub @ b")
    case Nil
    then show ?thesis by simp
  next
    case (Cons c cs)
    have "py_startswith (sub @ b) sub" by simp
    then show ?thesis using Cons by (simp add: py_contains_Cons)
  qed
next
  case (Cons x a)
  then show ?case by (simp add: py_contains_Cons)
qed

lemma py_contains_iff: "py_contains s sub \<longleftrightarrow> (\<exists>a b. s = a @ sub @ b)"
proof
  assume "py_contains s sub"
  then obtain i where "py_find s sub = Some i" by (auto simp: py_contains_def)
  from py_find_split [OF this] show "\<exists>a b. s = a @ sub @ b" by blast
next
  assume "\<exists>a b. s = a @ sub @ b"
  then show "py_contains s sub" using py_contains_occurrence by auto
qed

lemma py_find_first:
  assumes "sub \<noteq> []" and "\<not> py_contains (a @ butlast sub) sub"
  shows "py_find (a @ sub @ b) sub = Some (length a)"
  using assms(2)
proof (induction a)
  case Nil
  from assms(1) obtain c cs where "sub @ b = c # cs" by (cases sub) auto
  moreover have "py_startswith (sub @ b) sub" by simp
  ultimately show ?case by simp
next
  case (Cons x a)
  from Cons.prems have ns: "\<not> py_startswith ((x # a) @ butlast sub) sub"
    and nc: "\<not> py_contains (a @ butlast sub) sub"
    by (simp_all add: py_contains_Cons)
  have "(x # a) @ sub @ b = ((x # a) @ butlast sub) @ (last sub # b)"
    using assms(1) by simp
  moreover have "length sub \<le> length ((x # a) @ butlast sub)" by simp
  ultimately have "take (length sub) ((x # a) @ sub @ b) = take (length sub) ((x # a) @ butlast sub)"
    by (metis take_append diff_is_0_eq take_0 append_Nil2)
  with ns have "\<not> py_startswith (x # a @ sub @ b) sub"
    by (simp add: py_startswith_def)
  with Cons.IH [OF nc] show ?case by simp
qed

lemma py_lower_append: "py_lower (a @ b) = py_lower a @ py_lower b"
  by (simp add: py_lower_def)

lemma py_lower_marker: "py_lower ''Justification:'' = ''justification:''"
  by code_simp

lemma marker_found_in_lower:
  "py_contains s ''Justification:'' \<Longrightarrow> py_contains (py_lower s) ''justification:''"
proof -
  assume "py_contains s ''Justification:''"
  then obtain a b where "s = a @ ''Justification:'' @ b"
    unfolding py_contains_iff by blast
  then have "py_lower s = py_lower a @ ''justification:'' @ py_lower b"
    by (simp only: py_lower_append py_lower_marker)
  then show ?thesis unfolding py_contains_iff by blast
qed

lemma slice_to_nonneg: "0 \<le> n \<Longrightarrow> py_slice_to xs n = take (nat n) xs"
  by (simp add: py_slice_to_def slice_bound_def min_def)

lemma slice_to_is_take: "py_slice_to xs n = take (slice_bound (length xs) n) xs"
  by (simp add: py_slice_to_def)

section \<open>Separating answer and justification\<close>

lemma split_example_marker:
  "split_answer_justification
     (''Answer text.'' @ [CHR ''\<newline>''] @ ''Justification: because X'')
     = (''Answer text.'', ''because X'')"
  by code_simp

lemma split_example_no_marker:
  "split_answer_justification ''Just an answer, no marker''
     = (''Just an answer, no marker'', ''Response is grounded in the document content.'')"
  by code_simp

text \<open>
  Claim C1, as the code has it. The reply is \<open>full_response\<close>. When it contains
  \<open>Justification:\<close> in exactly this letter case, the result is the stripped text before
  the first occurrence and the stripped text after it, whether or not either is empty.
  When it contains the marker in no letter case, the result is the reply itself with
  \<open>Response is grounded in the document content.\<close> The function is total, and the two
  examples of the specification hold. (A reply that has the marker only in another letter
  case is left out of this statement.)
\<close>

theorem split_answer_justification_cases:
  "(r = a @ ''Justification:'' @ b \<and> \<not> py_contains (a @ ''Justification'') ''Justification:''
      \<longrightarrow> split_answer_justification r = (py_strip a, py_strip b))
   \<and> (\<not> py_contains (py_lower r) ''justification:''
      \<longrightarrow> split_answer_justification r = (r, ''Response is grounded in the document content.''))
   \<and> split_answer_justification
         (''Answer text.'' @ [CHR ''\<newline>''] @ ''Justification: because X'')
       = (''Answer text.'', ''because X'')
   \<and> split_answer_justification ''Just an answer, no marker''
       = (''Just an answer, no marker'', ''Response is grounded in the document content.'')"
proof -
  have first: "split_answer_justification r = (py_strip a, py_strip b)"
    if r: "r = a @ ''Justification:'' @ b"
    and nb: "\<not> py_contains (a @ ''Justification'') ''Justification:''"
  proof -
    have "py_contains r ''Justification:''" unfolding r by (rule py_contains_occurrence)
    then have low: "py_contains (py_lower r) ''justification:''" by (rule marker_found_in_lower)
    have "py_find r ''Justification:'' = Some (length a)"
      unfolding r by (rule py_find_first) (use nb in simp_all)
    then have "py_split1 r ''Justification:'' = [a, b]"
      by (simp add: py_split1_def r)
    with low show ?thesis by (simp add: split_answer_justification_def)
  qed
  have none: "split_answer_justification r = (r, ''Response is grounded in the document content.'')"
    if "\<not> py_contains (py_lower r) ''justification:''"
    using that by (simp add: split_answer_justification_def)
  from first none split_example_marker split_example_no_marker show ?thesis by blast
qed

theorem split_answer_justification_cases_witness:
  "''Yes. Justification: see page 2'' = ''Yes. '' @ ''Justification:'' @ '' see page 2''
   \<and> \<not> py_contains (''Yes. '' @ ''Justification'') ''Justification:''
   \<and> split_answer_justification ''Yes. Justification: see page 2'' = (''Yes.'', ''see page 2'')
   \<and> \<not> py_contains (py_lower ''No marker.'') ''justification:''
   \<and> split_answer_justification ''No marker.''
       = (''No marker.'', ''Response is grounded in the document content.'')"
proof -
  have h1: "''Yes. Justification: see page 2'' = ''Yes. '' @ ''Justification:'' @ '' see page 2''"
    by simp
  have h2: "\<not> py_contains (''Yes. '' @ ''Justification'') ''Justification:''"
    by code_simp
  have h3: "\<not> py_contains (py_lower ''No marker.'') ''justification:''"
    by code_simp
  have s1: "py_strip ''Yes. '' = ''Yes.''" by code_simp
  have s2: "py_strip '' see page 2'' = ''see page 2''" by code_simp
  have a: "split_answer_justification ''Yes. Justification: see page 2''
      = (py_strip ''Yes. '', py_strip '' see page 2'')"
    using split_answer_justification_cases
      [of "''Yes. Justification: see page 2''" "''Yes. ''" "'' see page 2''"] h1 h2
    by blast
  have b: "split_answer_justification ''No marker.''
       = (''No marker.'', ''Response is grounded in the document content.'')"
    using split_answer_justification_cases [of "''No marker.''"] h3 by blast
  from h1 h2 h3 a b show ?thesis by (simp only: s1 s2 simp_thms)
qed

text \<open>
  Claim C1 as stated fails: nothing tests that the two parts are non-empty. A reply that
  starts with the marker is split into an empty answer and the justification, where the
  claim has the whole reply as the answer with the generic justification.
\<close>

theorem split_answer_justification_empty_answer:
  "split_answer_justification ''Justification: because X'' = ([], ''because X'')"
  by code_simp

text \<open>
  The marker is looked for in the lower-cased reply but split on in its exact case: with
  a lower-case marker the reply is not split, and a second generic justification is used.
\<close>

lemma split_lower_case_marker:
  "split_answer_justification ''Sure. justification: because X''
     = (''Sure. justification: because X'', ''Based on the document content provided.'')"
  by code_simp

section \<open>Parsing an evaluation\<close>

lemma last_line_with_snoc:
  "last_line_with p (ls @ [l]) = (if py_startswith l p then Some l else last_line_with p ls)"
  by (induction ls) (auto split: option.splits)

lemma py_startswith_first: "py_startswith l (c # p) \<Longrightarrow> \<exists>t. l = c # t"
  by (cases l) (auto simp: py_startswith_def)

lemma prefixes_exclusive:
  "py_startswith l ''Evaluation:'' \<Longrightarrow> \<not> py_startswith l ''Feedback:''"
  "py_startswith l ''Evaluation:'' \<Longrightarrow> \<not> py_startswith l ''Score:''"
  "py_startswith l ''Feedback:'' \<Longrightarrow> \<not> py_startswith l ''Score:''"
  by (auto dest!: py_startswith_first)

lemma evaluation_fold:
  "foldl evaluation_line (ev, fb, sc) ls =
     ((case last_line_with ''Evaluation:'' ls of
         None \<Rightarrow> ev | Some l \<Rightarrow> py_strip (py_replace l ''Evaluation:'' [])),
      (case last_line_with ''Feedback:'' ls of
         None \<Rightarrow> fb | Some l \<Rightarrow> py_strip (py_replace l ''Feedback:'' [])),
      (case last_line_with ''Score:'' ls of
         None \<Rightarrow> sc
       | Some l \<Rightarrow> (case py_int (py_strip (py_replace l ''Score:'' [])) of
                     Some n \<Rightarrow> n | None \<Rightarrow> 5)))"
proof (induction ls rule: rev_induct)
  case Nil
  then show ?case by simp
next
  case (snoc l ls)
  show ?case
    unfolding foldl_append snoc.IH last_line_with_snoc
    by (auto simp: evaluation_line_def dest: prefixes_exclusive split: option.splits)
qed





section \<open>The three flows of the assistant return a value\<close>

lemma unparseable_score:
  assumes "last_line_with ''Score:'' (py_split r CHR ''\<newline>'') = Some l"
    and "py_int (py_strip (py_replace l ''Score:'' [])) = None"
  shows "snd (snd (parse_evaluation r)) = 5"
  using assms by (simp add: parse_evaluation_def evaluation_fold)

text \<open>
  Claim C6. \<open>generate_summary\<close>, \<open>answer_question\<close> and \<open>evaluate_user_answer\<close> always
  return a value. When the truncation raises, or the truncation succeeds and the gateway
  call raises, the value holds the formatted error string in place of the result; for the
  evaluation it is (\<open>Error\<close>, the error string, 0). When instead the gateway replies and
  the score line of the reply does not parse, the score is 5.
\<close>

theorem flows_return_error_values:
  "(\<exists>s. generate_summary self d = Inr s)
   \<and> (\<exists>r. answer_question self q d h = Inr r)
   \<and> (\<exists>r. evaluate_user_answer self q ua ci d = Inr r)
   \<and> (truncate_text self d 2500 = Inl e
        \<longrightarrow> generate_summary self d = Inr (''Error generating summary: '' @ str_exn e)
          \<and> answer_question self q d h = Inr (''Error answering question: '' @ str_exn e, []))
   \<and> (truncate_text self d 2000 = Inl e
        \<longrightarrow> evaluate_user_answer self q ua ci d
              = Inr (''Error'', ''Error evaluating answer: '' @ str_exn e, 0))
   \<and> (truncate_text self d 2500 = Inr t
        \<and> client self \<lparr>req_model = ''gpt-4o-mini'', req_prompt = SummaryPrompt t,
                        req_max_tokens = 200\<rparr> = Inl e
        \<longrightarrow> generate_summary self d = Inr (''Error generating summary: '' @ str_exn e))
   \<and> (truncate_text self d 2500 = Inr t
        \<and> client self \<lparr>req_model = ''gpt-4o-mini'',
                        req_prompt = AnswerPrompt t (build_context h) q,
                        req_max_tokens = 400\<rparr> = Inl e
        \<longrightarrow> answer_question self q d h = Inr (''Error answering question: '' @ str_exn e, []))
   \<and> (truncate_text self d 2000 = Inr t
        \<and> client self \<lparr>req_model = ''gpt-4o-mini'',
                        req_prompt = EvaluationPrompt t q ci ua,
                        req_max_tokens = 300\<rparr> = Inl e
        \<longrightarrow> evaluate_user_answer self q ua ci d
              = Inr (''Error'', ''Error evaluating answer: '' @ str_exn e, 0))
   \<and> (truncate_text self d 2000 = Inr t
        \<and> client self \<lparr>req_model = ''gpt-4o-mini'',
                        req_prompt = EvaluationPrompt t q ci ua,
                        req_max_tokens = 300\<rparr> = Inr content
        \<and> last_line_with ''Score:'' (py_split (py_strip content) CHR ''\<newline>'') = Some l
        \<and> py_int (py_strip (py_replace l ''Score:'' [])) = None
        \<longrightarrow> (\<exists>ev fb. evaluate_user_answer self q ua ci d = Inr (ev, fb, 5)))"
proof -
  have s: "\<exists>s. generate_summary self d = Inr s"
    by (simp add: generate_summary_def split: sum.split)
  have a: "\<exists>r. answer_question self q d h = Inr r"
    by (simp add: answer_question_def split: sum.split)
  have v: "\<exists>r. evaluate_user_answer self q ua ci d = Inr r"
    by (simp add: evaluate_user_answer_def split: sum.split)
  have t1: "generate_summary self d = Inr (''Error generating summary: '' @ str_exn e)
          \<and> answer_question self q d h = Inr (''Error answering question: '' @ str_exn e, [])"
    if "truncate_text self d 2500 = Inl e"
    using that by (simp add: generate_summary_def generate_summary_try_def
        answer_question_def answer_question_try_def)
  have t2: "evaluate_user_answer self q ua ci d
              = Inr (''Error'', ''Error evaluating answer: '' @ str_exn e, 0)"
    if "truncate_text self d 2000 = Inl e"
    using that by (simp add: evaluate_user_answer_def evaluate_user_answer_try_def)
  have g1: "generate_summary self d = Inr (''Error generating summary: '' @ str_exn e)"
    if "truncate_text self d 2500 = Inr t"
      "client self \<lparr>req_model = ''gpt-4o-mini'', req_prompt = SummaryPrompt t,
                        req_max_tokens = 200\<rparr> = Inl e"
    using that by (simp add: generate_summary_def generate_summary_try_def)
  have g2: "answer_question self q d h = Inr (''Error answering question: '' @ str_exn e, [])"
    if "truncate_text self d 2500 = Inr t"
      "client self \<lparr>req_model = ''gpt-4o-mini'',
                        req_prompt = AnswerPrompt t (build_context h) q,
                        req_max_tokens = 400\<rparr> = Inl e"
    using that by (simp add: answer_question_def answer_question_try_def)
  have g3: "evaluate_user_answer self q ua ci d
              = Inr (''Error'', ''Error evaluating answer: '' @ str_exn e, 0)"
    if "truncate_text self d 2000 = Inr t"
      "client self \<lparr>req_model = ''gpt-4o-mini'',
                        req_prompt = EvaluationPrompt t q ci ua,
                        req_max_tokens = 300\<rparr> = Inl e"
    using that by (simp add: evaluate_user_answer_def evaluate_user_answer_try_def)
  have u: "\<exists>ev fb. evaluate_user_answer self q ua ci d = Inr (ev, fb, 5)"
    if "truncate_text self d 2000 = Inr t"
      "client self \<lparr>req_model = ''gpt-4o-mini'',
                        req_prompt = EvaluationPrompt t q ci ua,
                        req_max_tokens = 300\<rparr> = Inr content"
      "last_line_with ''Score:'' (py_split (py_strip content) CHR ''\<newline>'') = Some l"
      "py_int (py_strip (py_replace l ''Score:'' [])) = None"
  proof -
    from unparseable_score [OF that(3,4)]
    obtain ev fb where "parse_evaluation (py_strip content) = (ev, fb, 5)"
      by (cases "parse_evaluation (py_strip content)") auto
    with that(1,2) show ?thesis
      by (simp add: evaluate_user_answer_def evaluate_user_answer_try_def)
  qed
  from s a v t1 t2 g1 g2 g3 u show ?thesis by blast
qed

theorem flows_return_error_values_witness:
  "generate_summary \<lparr>client = (\<lambda>req. Inl (Exn ''timeout'')),
                      encoding = \<lparr>encode = (\<lambda>s. Inr (map of_char s)),
                                  decode = (\<lambda>ts. Inr (map char_of ts))\<rparr>\<rparr> ''A document.''
     = Inr ''Error generating summary: timeout''
   \<and> answer_question \<lparr>client = (\<lambda>req. Inl (Exn ''timeout'')),
                      encoding = \<lparr>encode = (\<lambda>s. Inr (map of_char s)),
                                  decode = (\<lambda>ts. Inr (map char_of ts))\<rparr>\<rparr>
        ''Why?'' ''A document.'' None
     = Inr (''Error answering question: timeout'', [])
   \<and> evaluate_user_answer \<lparr>client = (\<lambda>req. Inl (Exn ''timeout'')),
                      encoding = \<lparr>encode = (\<lambda>s. Inr (map of_char s)),
                                  decode = (\<lambda>ts. Inr (map char_of ts))\<rparr>\<rparr>
        ''Why?'' ''Because.'' ''Key points'' ''A document.''
     = Inr (''Error'', ''Error evaluating answer: timeout'', 0)
   \<and> generate_summary \<lparr>client = (\<lambda>req. Inr []),
                      encoding = \<lparr>encode = (\<lambda>s. Inl (Exn ''special token'')),
                                  decode = (\<lambda>ts. Inr (map char_of ts))\<rparr>\<rparr> ''A document.''
     = Inr ''Error generating summary: special token''
   \<and> evaluate_user_answer \<lparr>client = (\<lambda>req. Inr []),
                      encoding = \<lparr>encode = (\<lambda>s. Inl (Exn ''special token'')),
                                  decode = (\<lambda>ts. Inr (map char_of ts))\<rparr>\<rparr>
        ''Why?'' ''Because.'' ''Key points'' ''A document.''
     = Inr (''Error'', ''Error evaluating answer: special token'', 0)
   \<and> (\<exists>ev fb. evaluate_user_answer \<lparr>client = (\<lambda>req. Inr ''Score: high''),
                      encoding = \<lparr>encode = (\<lambda>s. Inr (map of_char s)),
                                  decode = (\<lambda>ts. Inr (map char_of ts))\<rparr>\<rparr>
        ''Why?'' ''Because.'' ''Key points'' ''A document.'' = Inr (ev, fb, 5))"
proof -
  let ?enc = "\<lparr>encode = (\<lambda>s. Inr (map of_char s)), decode = (\<lambda>ts. Inr (map char_of ts))\<rparr>"
  let ?down = "\<lparr>client = (\<lambda>req. Inl (Exn ''timeout'')), encoding = ?enc\<rparr>"
  let ?bad = "\<lparr>client = (\<lambda>req. Inr []),
               encoding = \<lparr>encode = (\<lambda>s. Inl (Exn ''special token'')),
                           decode = (\<lambda>ts. Inr (map char_of ts))\<rparr>\<rparr>"
  let ?odd = "\<lparr>client = (\<lambda>req. Inr ''Score: high''), encoding = ?enc\<rparr>"
  have tr: "truncate_text ?down ''A document.'' k = Inr ''A document.''" if "11 \<le> k" for k
    using that by (simp add: truncate_text_def)
  have tb: "truncate_text ?bad ''A document.'' k = Inl (Exn ''special token'')" for k
    by (simp add: truncate_text_def)
  have tro: "truncate_text ?odd ''A document.'' 2000 = Inr ''A document.''"
    by (simp add: truncate_text_def)
  have ll: "last_line_with ''Score:'' (py_split (py_strip ''Score: high'') CHR ''\<newline>'')
              = Some ''Score: high''"
    by code_simp
  have unp: "py_int (py_strip (py_replace ''Score: high'' ''Score:'' [])) = None"
    by code_simp
  have 1: "generate_summary ?down ''A document.'' = Inr ''Error generating summary: timeout''"
    using flows_return_error_values [of ?down "''A document.''" _ _ _ _ "Exn ''timeout''" "''A document.''"] tr [of 2500]
    by simp
  have 2: "answer_question ?down ''Why?'' ''A document.'' None
       = Inr (''Error answering question: timeout'', [])"
    using flows_return_error_values [of ?down "''A document.''" "''Why?''" None _ _ "Exn ''timeout''" "''A document.''"]
      tr [of 2500]
    by simp
  have 3: "evaluate_user_answer ?down ''Why?'' ''Because.'' ''Key points'' ''A document.''
     = Inr (''Error'', ''Error evaluating answer: timeout'', 0)"
    using flows_return_error_values [of ?down "''A document.''" "''Why?''" _ "''Because.''" "''Key points''"
        "Exn ''timeout''" "''A document.''"] tr [of 2000]
    by simp
  have 4: "generate_summary ?bad ''A document.'' = Inr ''Error generating summary: special token''"
    using flows_return_error_values [of ?bad "''A document.''" _ _ _ _ "Exn ''special token''"] tb [of 2500]
    by simp
  have 5: "evaluate_user_answer ?bad ''Why?'' ''Because.'' ''Key points'' ''A document.''
     = Inr (''Error'', ''Error evaluating answer: special token'', 0)"
    using flows_return_error_values [of ?bad "''A document.''" "''Why?''" _ "''Because.''" "''Key points''"
        "Exn ''special token''"] tb [of 2000]
    by simp
  have 6: "\<exists>ev fb. evaluate_user_answer ?odd ''Why?'' ''Because.'' ''Key points'' ''A document.''
       = Inr (ev, fb, 5)"
    using flows_return_error_values [of ?odd "''A document.''" "''Why?''" _ "''Because.''" "''Key points''" _
        "''A document.''" "''Score: high''" "''Score: high''"] tro ll unp
    by simp
  from 1 2 3 4 5 6 show ?thesis by blast
qed

section \<open>Questions when the gateway fails\<close>

lemma fallback_length: "length fallback_questions = 3"
  by (simp add: fallback_questions_def)

lemma fallback_difficulties:
  "map (\<lambda>q. map_of q ''difficulty'') fallback_questions
     = [Some (PStr ''Easy''), Some (PStr ''Medium''), Some (PStr ''Hard'')]"
  by (simp add: fallback_questions_def)

lemma fallback_types:
  "map (\<lambda>q. map_of q ''type'') fallback_questions
     = [Some (PStr ''comprehension''), Some (PStr ''analysis''), Some (PStr ''inference'')]"
  by (simp add: fallback_questions_def)

text \<open>
  Claim C3. When the gateway call of \<open>generate_challenge_questions\<close> raises, the result
  is the static fallback set cut to the requested number: for the default request of 3 it
  is the whole set, which has exactly three entries with difficulties Easy, Medium, Hard in
  that order and the distinct types comprehension, analysis, inference; for a request of
  \<open>n \<ge> 0\<close> it is the first \<open>n\<close> entries of the set.
\<close>

theorem gateway_failure_gives_fallback:
  assumes "truncate_text ai d 2500 = Inr t"
    and "qg_client self \<lparr>req_model = ''gpt-3.5-turbo'', req_prompt = QuestionsPrompt t n,
                          req_max_tokens = 800\<rparr> = Inl e"
  shows "generate_challenge_questions self (Inr ai) loads d n = generate_fallback_questions d n
    \<and> (n = 3 \<longrightarrow> generate_challenge_questions self (Inr ai) loads d n = fallback_questions)
    \<and> (0 \<le> n \<longrightarrow> generate_challenge_questions self (Inr ai) loads d n
                      = take (nat n) fallback_questions)
    \<and> length fallback_questions = 3
    \<and> map (\<lambda>q. map_of q ''difficulty'') fallback_questions
         = [Some (PStr ''Easy''), Some (PStr ''Medium''), Some (PStr ''Hard'')]
    \<and> map (\<lambda>q. map_of q ''type'') fallback_questions
         = [Some (PStr ''comprehension''), Some (PStr ''analysis''), Some (PStr ''inference'')]
    \<and> distinct (map (\<lambda>q. map_of q ''type'') fallback_questions)"
proof -
  have dt: "distinct (map (\<lambda>q. map_of q ''type'') fallback_questions)"
    unfolding fallback_types by simp
  have g: "generate_challenge_questions self (Inr ai) loads d n = generate_fallback_questions d n"
    using assms
    by (simp add: generate_challenge_questions_def generate_challenge_questions_try_def)
  have three: "generate_challenge_questions self (Inr ai) loads d n = fallback_questions"
    if "n = 3"
    unfolding g using that
    by (simp add: generate_fallback_questions_def slice_to_nonneg fallback_length)
  have fewer: "generate_challenge_questions self (Inr ai) loads d n
      = take (nat n) fallback_questions" if "0 \<le> n"
    using that by (simp add: g generate_fallback_questions_def slice_to_nonneg)
  from g three fewer fallback_length fallback_difficulties fallback_types dt
  show ?thesis by blast
qed

theorem gateway_failure_gives_fallback_witness:
  "truncate_text \<lparr>client = (\<lambda>req. Inr []),
                   encoding = \<lparr>encode = (\<lambda>s. Inr (map of_char s)),
                               decode = (\<lambda>ts. Inr (map char_of ts))\<rparr>\<rparr> ''A document.'' 2500
      = Inr ''A document.''
   \<and> generate_challenge_questions \<lparr>qg_client = (\<lambda>req. Inl (Exn ''connection refused''))\<rparr>
        (Inr \<lparr>client = (\<lambda>req. Inr []),
              encoding = \<lparr>encode = (\<lambda>s. Inr (map of_char s)),
                          decode = (\<lambda>ts. Inr (map char_of ts))\<rparr>\<rparr>)
        (\<lambda>s. Inl JSONDecodeError) ''A document.'' 3 = fallback_questions"
proof -
  let ?ai = "\<lparr>client = (\<lambda>req. Inr []),
               encoding = \<lparr>encode = (\<lambda>s. Inr (map of_char s)),
                           decode = (\<lambda>ts. Inr (map char_of ts))\<rparr>\<rparr>"
  let ?self = "\<lparr>qg_client = (\<lambda>req. Inl (Exn ''connection refused''))\<rparr>"
  have h1: "truncate_text ?ai ''A document.'' 2500 = Inr ''A document.''"
    by (simp add: truncate_text_def)
  have h2: "qg_client ?self \<lparr>req_model = ''gpt-3.5-turbo'',
               req_prompt = QuestionsPrompt ''A document.'' 3, req_max_tokens = 800\<rparr>
             = Inl (Exn ''connection refused'')"
    by simp
  from gateway_failure_gives_fallback [OF h1 h2, of "\<lambda>s. Inl JSONDecodeError"] h1
  show ?thesis by blast
qed

section \<open>Validation of questions\<close>

lemma passes_validation_record:
  assumes "question_record q"
  shows "passes_validation q = Inr (meets_gate q)"
proof (cases "map_of q ''question''")
  case None
  then show ?thesis
    by (simp add: passes_validation_def meets_gate_def field_longer_than_def)
next
  case (Some v)
  with assms obtain s where v: "v = PStr s"
    by (cases v) (auto simp: question_record_def text_field_def)
  show ?thesis
  proof (cases "map_of q ''expected_answer''")
    case None
    with Some v show ?thesis
      by (auto simp: passes_validation_def meets_gate_def field_longer_than_def py_strip_def)
  next
    case (Some w)
    with assms obtain u where w: "w = PStr u"
      by (cases w) (auto simp: question_record_def text_field_def)
    from \<open>map_of q ''question'' = Some v\<close> v Some w show ?thesis
      by (auto simp: passes_validation_def meets_gate_def field_longer_than_def py_strip_def)
  qed
qed

lemma validate_loop_records:
  "list_all question_record qs \<Longrightarrow> validate_loop qs acc = Inr (acc @ filter meets_gate qs)"
  by (induction qs arbitrary: acc) (simp_all add: passes_validation_record)

lemma short_fails: "map_of q ''question'' = Some (PStr ''short'') \<Longrightarrow> \<not> meets_gate q"
proof -
  have "length (py_strip ''short'') = 5" by code_simp
  then show "map_of q ''question'' = Some (PStr ''short'') \<Longrightarrow> \<not> meets_gate q"
    by (simp add: meets_gate_def field_longer_than_def)
qed

text \<open>
  Claim C9. For every sequence of question records, \<open>validate_questions\<close> returns exactly
  the records whose \<open>question\<close> is present with stripped length above 10 and whose
  \<open>expected_answer\<close> is present with stripped length above 5, in their order and as they
  are; a record whose question text is \<open>short\<close> is not among them.
\<close>

theorem validate_questions_filters:
  assumes "list_all question_record qs"
  shows "validate_questions qs d = Inr (filter meets_gate qs)
     \<and> (map_of q ''question'' = Some (PStr ''short'') \<longrightarrow> q \<notin> set (filter meets_gate qs))"
  using assms short_fails [of q] by (simp add: validate_questions_def validate_loop_records)

theorem validate_questions_filters_witness:
  "list_all question_record
     [[(''question'', PStr ''short''), (''expected_answer'', PStr ''A long enough answer'')],
      [(''question'', PStr ''What is the main claim?''), (''expected_answer'', PStr ''The claim'')]]
   \<and> validate_questions
       [[(''question'', PStr ''short''), (''expected_answer'', PStr ''A long enough answer'')],
        [(''question'', PStr ''What is the main claim?''), (''expected_answer'', PStr ''The claim'')]]
       ''A document.''
     = Inr [[(''question'', PStr ''What is the main claim?''),
             (''expected_answer'', PStr ''The claim'')]]"
proof -
  let ?short = "[(''question'', PStr ''short''), (''expected_answer'', PStr ''A long enough answer'')]"
  let ?good = "[(''question'', PStr ''What is the main claim?''),
                (''expected_answer'', PStr ''The claim'')]"
  have h: "list_all question_record [?short, ?good]" by code_simp
  have f: "filter meets_gate [?short, ?good] = [?good]" by code_simp
  from validate_questions_filters [OF h, of "''A document.''"] h
  show ?thesis by (simp only: f simp_thms)
qed

lemma fallback_all_meet_gate: "list_all meets_gate fallback_questions"
  by code_simp

lemma fallback_all_records: "list_all question_record fallback_questions"
  by code_simp

lemma list_all_take: "list_all P xs \<Longrightarrow> list_all P (take m xs)"
  by (auto simp: list_all_iff dest: in_set_takeD)

text \<open>
  Claim C10. Every question of the static fallback set meets the validation gate, so for
  every document and every requested number \<open>validate_questions\<close> returns the fallback
  result unchanged; for a request of at least one question that result is not empty.
\<close>

theorem fallback_survives_validation:
  "validate_questions (generate_fallback_questions d n) d' = Inr (generate_fallback_questions d n)
   \<and> list_all meets_gate fallback_questions
   \<and> (1 \<le> n \<longrightarrow> generate_fallback_questions d n \<noteq> [])"
proof -
  let ?m = "slice_bound (length fallback_questions) n"
  have eq: "generate_fallback_questions d n = take ?m fallback_questions"
    by (simp add: generate_fallback_questions_def slice_to_is_take)
  have rec: "list_all question_record (take ?m fallback_questions)"
    by (rule list_all_take [OF fallback_all_records])
  have gate: "list_all meets_gate (take ?m fallback_questions)"
    by (rule list_all_take [OF fallback_all_meet_gate])
  then have "filter meets_gate (take ?m fallback_questions) = take ?m fallback_questions"
    by (simp add: list_all_iff)
  with rec have a: "validate_questions (generate_fallback_questions d n) d'
      = Inr (generate_fallback_questions d n)"
    by (simp add: eq validate_questions_def validate_loop_records)
  have c: "generate_fallback_questions d n \<noteq> []" if "1 \<le> n"
  proof -
    from that have "0 < ?m" by (simp add: fallback_length slice_bound_def)
    moreover have "fallback_questions \<noteq> []" using fallback_length by auto
    ultimately show ?thesis by (simp add: eq)
  qed
  from a c fallback_all_meet_gate show ?thesis by simp
qed

theorem fallback_survives_validation_witness:
  "(1::int) \<le> 2
   \<and> generate_fallback_questions ''A document.'' 2 \<noteq> []
   \<and> validate_questions (generate_fallback_questions ''A document.'' 2) ''A document.''
       = Inr (generate_fallback_questions ''A document.'' 2)"
  using fallback_survives_validation [of "''A document.''" 2 "''A document.''"] by simp

section \<open>Parsing a question set\<close>

lemma clean_question_object:
  assumes "question_object q"
  shows "clean_question q = Inr (if has_required_keys q then Some (question_of q) else None)"
proof -
  from assms obtain kvs where q: "q = PDict kvs" by (cases q) auto
  show ?thesis
  proof (cases "has_required_keys q")
    case False
    then show ?thesis by (auto simp: q clean_question_def)
  next
    case True
    with assms obtain s1 s2 dv where
      "map_of kvs ''question'' = Some (PStr s1)"
      "map_of kvs ''expected_answer'' = Some (PStr s2)"
      "map_of kvs ''difficulty'' = Some dv"
      unfolding q
      by (cases "map_of kvs ''question''" rule: is_text.cases;
          cases "map_of kvs ''expected_answer''" rule: is_text.cases) auto
    then show ?thesis
      by (cases "map_of kvs ''type''") (simp_all add: q clean_question_def)
  qed
qed

lemma clean_questions_objects:
  "list_all question_object elems \<Longrightarrow>
   clean_questions elems acc = Inr (acc @ map question_of (filter has_required_keys elems))"
  by (induction elems arbitrary: acc) (simp_all add: clean_question_object)

text \<open>
  Claim C4, as the code has it. Let the part of the reply from its first \<open>[\<close> to its
  last \<open>]\<close> parse as a JSON array of objects in which \<open>question\<close> and
  \<open>expected_answer\<close> are strings whenever the three required keys are present, and let
  \<open>n \<ge> 0\<close> questions be requested. Then the result is made, in order, from exactly the
  elements that have the keys \<open>question\<close>, \<open>expected_answer\<close> and \<open>difficulty\<close>: the
  question and the expected answer stripped, the difficulty as it is, the type as it is or
  \<open>comprehension\<close> when absent; and only the first \<open>n\<close> are kept. The example of the
  specification yields one question of type \<open>comprehension\<close>.
\<close>

theorem parse_question_set_objects:
  \<open>(json_loads (json_text_of response_text) = Inr (PList elems)
      \<and> list_all question_object elems \<and> 0 \<le> n
      \<longrightarrow> parse_question_set json_loads response_text n
            = Inr (take (nat n) (map question_of (filter has_required_keys elems))))
   \<and> (json_loads ''[{"question":"Q1?","expected_answer":"A1","difficulty":"Easy"}]''
        = Inr (PList [PDict [(''question'', PStr ''Q1?''), (''expected_answer'', PStr ''A1''),
                             (''difficulty'', PStr ''Easy'')]])
      \<longrightarrow> parse_question_set json_loads
              ''[{"question":"Q1?","expected_answer":"A1","difficulty":"Easy"}]'' 3
            = Inr [[(''question'', PStr ''Q1?''), (''expected_answer'', PStr ''A1''),
                    (''difficulty'', PStr ''Easy''), (''type'', PStr ''comprehension'')]])\<close>
proof -
  have general: "parse_question_set json_loads response_text n
            = Inr (take (nat n) (map question_of (filter has_required_keys elems)))"
    if "json_loads (json_text_of response_text) = Inr (PList elems)"
      and "list_all question_object elems" and "0 \<le> n"
    for json_loads response_text elems n
    using that by (simp add: parse_question_set_def clean_questions_objects slice_to_nonneg)
  let ?text = \<open>''[{"question":"Q1?","expected_answer":"A1","difficulty":"Easy"}]''\<close>
  let ?obj = "PDict [(''question'', PStr ''Q1?''), (''expected_answer'', PStr ''A1''),
                     (''difficulty'', PStr ''Easy'')]"
  have whole: "json_text_of ?text = ?text" by code_simp
  have obj: "list_all question_object [?obj]" by simp
  have s1: "py_strip ''Q1?'' = ''Q1?''" by code_simp
  have s2: "py_strip ''A1'' = ''A1''" by code_simp
  have example: "parse_question_set json_loads ?text 3
       = Inr [[(''question'', PStr ''Q1?''), (''expected_answer'', PStr ''A1''),
               (''difficulty'', PStr ''Easy''), (''type'', PStr ''comprehension'')]]"
    if "json_loads ?text = Inr (PList [?obj])"
  proof -
    from that have "json_loads (json_text_of ?text) = Inr (PList [?obj])" by (simp only: whole)
    from general [of json_loads ?text "[?obj]" 3, OF this obj] show ?thesis by (simp add: s1 s2)
  qed
  from general example show ?thesis by blast
qed

theorem parse_question_set_objects_witness:
  "list_all question_object
     [PDict [(''question'', PStr '' Why? ''), (''expected_answer'', PStr ''Because ''),
             (''difficulty'', PStr ''Hard''), (''type'', PStr ''analysis'')],
      PDict [(''question'', PStr ''No difficulty?''), (''expected_answer'', PStr ''None'')],
      PDict [(''question'', PStr ''How?''), (''expected_answer'', PStr ''So''),
             (''difficulty'', PStr ''Easy'')]]
   \<and> (0::int) \<le> 1
   \<and> parse_question_set
        (\<lambda>s. Inr (PList
           [PDict [(''question'', PStr '' Why? ''), (''expected_answer'', PStr ''Because ''),
                   (''difficulty'', PStr ''Hard''), (''type'', PStr ''analysis'')],
            PDict [(''question'', PStr ''No difficulty?''), (''expected_answer'', PStr ''None'')],
            PDict [(''question'', PStr ''How?''), (''expected_answer'', PStr ''So''),
                   (''difficulty'', PStr ''Easy'')]]))
        ''Here they are: [...]'' 1
      = Inr [[(''question'', PStr ''Why?''), (''expected_answer'', PStr ''Because''),
              (''difficulty'', PStr ''Hard''), (''type'', PStr ''analysis'')]]"
proof -
  let ?elems = "[PDict [(''question'', PStr '' Why? ''), (''expected_answer'', PStr ''Because ''),
             (''difficulty'', PStr ''Hard''), (''type'', PStr ''analysis'')],
      PDict [(''question'', PStr ''No difficulty?''), (''expected_answer'', PStr ''None'')],
      PDict [(''question'', PStr ''How?''), (''expected_answer'', PStr ''So''),
             (''difficulty'', PStr ''Easy'')]]"
  have h1: "list_all question_object ?elems" by code_simp
  have h2: "(0::int) \<le> 1" by simp
  have r: "take (nat 1) (map question_of (filter has_required_keys ?elems))
      = [[(''question'', PStr ''Why?''), (''expected_answer'', PStr ''Because''),
          (''difficulty'', PStr ''Hard''), (''type'', PStr ''analysis'')]]"
    by code_simp
  have "parse_question_set (\<lambda>s. Inr (PList ?elems)) ''Here they are: [...]'' 1
      = Inr (take (nat 1) (map question_of (filter has_required_keys ?elems)))"
    using parse_question_set_objects
      [of "\<lambda>s. Inr (PList ?elems)" "''Here they are: [...]''" ?elems 1] h1 h2
    by blast
  with h1 h2 show ?thesis by (simp only: r simp_thms)
qed

text \<open>
  Claim C4 as stated fails for an array with an element that is no object: \<open>[1]\<close> has no
  element with the three keys, so the claim gives the empty result, but the membership
  test raises \<open>TypeError\<close>, the outer handler takes over, and the caller receives the
  three fallback questions.
\<close>

theorem parse_question_set_non_object:
  "parse_question_set (\<lambda>s. if s = ''[1]'' then Inr (PList [PInt 1]) else Inl JSONDecodeError) ''[1]'' 3
     = Inl (Interpreter TypeError)
   \<and> generate_challenge_questions \<lparr>qg_client = (\<lambda>req. Inr ''[1]'')\<rparr>
        (Inr \<lparr>client = (\<lambda>req. Inr []),
              encoding = \<lparr>encode = (\<lambda>s. Inr (map of_char s)),
                          decode = (\<lambda>ts. Inr (map char_of ts))\<rparr>\<rparr>)
        (\<lambda>s. if s = ''[1]'' then Inr (PList [PInt 1]) else Inl JSONDecodeError)
        ''A document.'' 3 = fallback_questions
   \<and> map question_of (filter has_required_keys [PInt 1]) = []
   \<and> length fallback_questions = 3"
proof -
  have jt: "json_text_of ''[1]'' = ''[1]''" by code_simp
  have st: "py_strip ''[1]'' = ''[1]''" by code_simp
  have p: "parse_question_set (\<lambda>s. if s = ''[1]'' then Inr (PList [PInt 1]) else Inl JSONDecodeError) ''[1]'' 3
     = Inl (Interpreter TypeError)"
    by (simp add: parse_question_set_def jt clean_question_def)
  have f: "generate_fallback_questions ''A document.'' 3 = fallback_questions"
    by (simp add: generate_fallback_questions_def slice_to_nonneg fallback_questions_def)
  have g: "generate_challenge_questions \<lparr>qg_client = (\<lambda>req. Inr ''[1]'')\<rparr>
        (Inr \<lparr>client = (\<lambda>req. Inr []),
              encoding = \<lparr>encode = (\<lambda>s. Inr (map of_char s)),
                          decode = (\<lambda>ts. Inr (map char_of ts))\<rparr>\<rparr>)
        (\<lambda>s. if s = ''[1]'' then Inr (PList [PInt 1]) else Inl JSONDecodeError)
        ''A document.'' 3 = fallback_questions"
    by (simp add: generate_challenge_questions_def generate_challenge_questions_try_def
          truncate_text_def st p f)
  have l: "length fallback_questions = 3" by (simp add: fallback_questions_def)
  from p g l show ?thesis by simp
qed

end
